theory Spec2Isabelle
  imports Main "HOL-Library.Char_ord" "HOL-Library.List_Lexorder" "HOL-Library.Multiset"
begin

section \<open>Data model of DocumentMemberList.tsx\<close>

text \<open>
  The component works on values owned by its collaborators: the permission enumeration
  and the select's "empty" value, users, groups, group memberships and the document. A
  JavaScript string is modelled as a \<^typ>\<open>string\<close>: a list of code units below 256,
  ordered (\<open>Char_ord\<close>, \<open>List_Lexorder\<close>) lexicographically by code unit, which is how the
  relational operators of JavaScript compare two strings.
\<close>

datatype DocumentPermission = Read | ReadWrite | Admin

text \<open>The type \<open>DocumentPermission | typeof EmptySelectValue\<close> of a select's value.\<close>

datatype SelectValue = PermissionValue DocumentPermission | EmptySelectValue

record User =
  user_id :: string
  user_name :: string

record Group =
  group_id :: string
  group_name :: string
  memberCount :: nat

record GroupMembership =
  membership_id :: string
  groupId :: string
  documentId :: string
  group :: Group
  permission :: DocumentPermission

record Document =
  document_id :: string
  document_members :: "User list"

text \<open>\<open>Array.prototype.includes\<close> on an array of strings.\<close>

definition arr_includes :: "string list \<Rightarrow> string \<Rightarrow> bool" where
  "arr_includes arr x = (x \<in> set arr)"

section \<open>The displayed list of members (lines 113--125)\<close>

text \<open>
  \<open>String.prototype.toLocaleLowerCase\<close> on code units below 256, in a locale without
  special casing rules: the letters A--Z and the capital letters of the Latin-1 block
  (192--222 but the multiplication sign 215) move up by 32, every other unit stays.
\<close>

definition toLowerUnit :: "char \<Rightarrow> char" where
  "toLowerUnit c =
     (let n = (of_char c :: nat)
      in if (65 \<le> n \<and> n \<le> 90) \<or> (192 \<le> n \<and> n \<le> 222 \<and> n \<noteq> 215)
         then char_of (n + 32) else c)"

definition toLocaleLowerCase :: "string \<Rightarrow> string" where
  "toLocaleLowerCase s = map toLowerUnit s"

text \<open>
  lodash's \<open>orderBy(collection, iteratee, "asc")\<close> with one iteratee that returns a
  string: it pairs every element with its key and its index, sorts by key with
  \<open>compareAscending\<close> (the operators \<open><\<close> and \<open>>\<close> on the keys) and breaks ties by index.
  That is the stable sort by key; \<^const>\<open>sort_key\<close> is the stable insertion sort.
\<close>

definition orderBy :: "'a list \<Rightarrow> ('a \<Rightarrow> string) \<Rightarrow> 'a list" where
  "orderBy collection iteratee = sort_key iteratee collection"

text \<open>The iteratee of line 119--121.\<close>

definition memberKey :: "string list \<Rightarrow> User \<Rightarrow> string" where
  "memberKey invitedInSession user =
     (if arr_includes invitedInSession (user_id user) then ''_'' else '''')
       @ toLocaleLowerCase (user_name user)"

definition members :: "Document \<Rightarrow> string list \<Rightarrow> User list" where
  "members document invitedInSession =
     orderBy (document_members document) (memberKey invitedInSession)"

text \<open>
  What the comment of line 113 asks of the displayed list, as an executable check: no
  user that was not invited in the session stands before one that was.
\<close>

fun invitedFirst :: "string list \<Rightarrow> User list \<Rightarrow> bool" where
  "invitedFirst invitedInSession [] = True"
| "invitedFirst invitedInSession (u # us) =
     ((arr_includes invitedInSession (user_id u)
        \<or> list_all (\<lambda>v. \<not> arr_includes invitedInSession (user_id v)) us)
      \<and> invitedFirst invitedInSession us)"

section \<open>The displayed list of groups (lines 157--163)\<close>

text \<open>
  The comparator of lines 159--162. \<open>localeCompare\<close> is the collation of the engine and
  the locale, so it is a parameter: negative when its first argument sorts first. Only
  the name of \<open>a\<close> receives the prefix; the name of \<open>b\<close> is compared as it is.
\<close>

definition groupCompare ::
  "(string \<Rightarrow> string \<Rightarrow> int) \<Rightarrow> string list \<Rightarrow> GroupMembership \<Rightarrow> GroupMembership \<Rightarrow> int" where
  "groupCompare localeCompare invitedInSession a b =
     localeCompare
       ((if arr_includes invitedInSession (group_id (group a)) then ''_'' else '''')
          @ group_name (group a))
       (group_name (group b))"

text \<open>
  \<open>Array.prototype.sort(comparefn)\<close>, as V8 runs it on an array of fewer than 64
  elements (its minimal run length is then the length of the array, so the whole array
  is one run and nothing is merged). \<open>CountAndMakeRun\<close> finds the run the array starts
  with: it compares the second element with the first, then every element with the
  one before it while the order stays descending (negative) or stays not descending,
  and reverses a descending run. \<open>BinaryInsertionSort\<close> then puts every later element
  \<open>pivot\<close> into the part already placed, at the place a binary search with
  \<open>comparefn pivot (work ! mid)\<close> finds. The comparator always receives the later
  element first. Longer arrays are cut into such runs and the runs merged, which the
  model leaves out: ECMAScript fixes the result for a consistent comparator, and there
  every stable sort returns the same array.
\<close>

fun runTail :: "('a \<Rightarrow> 'a \<Rightarrow> int) \<Rightarrow> bool \<Rightarrow> 'a \<Rightarrow> 'a list \<Rightarrow> 'a list" where
  "runTail comparefn isDescending previousElement [] = []"
| "runTail comparefn isDescending previousElement (currentElement # rest) =
     (if (comparefn currentElement previousElement < 0) = isDescending
      then currentElement # runTail comparefn isDescending currentElement rest
      else [])"

fun countAndMakeRun :: "('a \<Rightarrow> 'a \<Rightarrow> int) \<Rightarrow> 'a list \<Rightarrow> 'a list \<times> 'a list" where
  "countAndMakeRun comparefn (elementHigh # elementLow # rest) =
     (let isDescending = (comparefn elementLow elementHigh < 0);
          tail = runTail comparefn isDescending elementLow rest;
          run = elementHigh # elementLow # tail
      in (if isDescending then rev run else run, drop (length tail) rest))"
| "countAndMakeRun comparefn arr = (arr, [])"

function binarySearch :: "('a \<Rightarrow> 'a \<Rightarrow> int) \<Rightarrow> 'a \<Rightarrow> 'a list \<Rightarrow> nat \<Rightarrow> nat \<Rightarrow> nat" where
  "binarySearch comparefn pivot work left right =
     (if left < right
      then (if comparefn pivot (work ! (left + (right - left) div 2)) < 0
            then binarySearch comparefn pivot work left (left + (right - left) div 2)
            else binarySearch comparefn pivot work (left + (right - left) div 2 + 1) right)
      else left)"
  by pat_completeness auto
termination
  by (relation "measure (\<lambda>(comparefn, pivot, work, left, right). right - left)") auto

declare binarySearch.simps [simp del]

fun binaryInsertionSort :: "('a \<Rightarrow> 'a \<Rightarrow> int) \<Rightarrow> 'a list \<Rightarrow> 'a list \<Rightarrow> 'a list" where
  "binaryInsertionSort comparefn placed [] = placed"
| "binaryInsertionSort comparefn placed (pivot # rest) =
     (let left = binarySearch comparefn pivot placed 0 (length placed)
      in binaryInsertionSort comparefn (take left placed @ pivot # drop left placed) rest)"

definition array_sort :: "('a \<Rightarrow> 'a \<Rightarrow> int) \<Rightarrow> 'a list \<Rightarrow> 'a list" where
  "array_sort comparefn arr =
     (case countAndMakeRun comparefn arr of
        (run, rest) \<Rightarrow> binaryInsertionSort comparefn run rest)"

text \<open>
  The sorted array of lines 157--163; \<open>groupsInDocument\<close> is the array that the store's
  \<open>inDocument(document.id)\<close> returns.
\<close>

definition sortedGroups ::
  "(string \<Rightarrow> string \<Rightarrow> int) \<Rightarrow> GroupMembership list \<Rightarrow> string list
     \<Rightarrow> GroupMembership list" where
  "sortedGroups localeCompare groupsInDocument invitedInSession =
     array_sort (groupCompare localeCompare invitedInSession) groupsInDocument"

text \<open>
  A collation to evaluate with: the three-way comparison of two strings by code unit. On
  names of lower-case ASCII letters, with or without the prefix \<open>_\<close>, the collations of
  the engines order as it does.
\<close>

definition codeUnitCompare :: "string \<Rightarrow> string \<Rightarrow> int" where
  "codeUnitCompare x y = (if x < y then - 1 else if y < x then 1 else 0)"

section \<open>Effects of the handlers\<close>

text \<open>
  What a handler does to the outside is recorded as a trace: the requests it sends
  through the stores, navigation, and the notifications it shows. A request of a store
  resolves or rejects; which one is the environment's choice.
\<close>

datatype Request =
    UserMembershipsDelete string string
  | UserMembershipsCreate string string DocumentPermission
  | GroupMembershipsDelete string string
  | GroupMembershipsCreate string string DocumentPermission
  | FetchDocumentMemberships string nat
  | GroupMembershipsFetchAll string

datatype error = Error string

datatype TArg = Str string | Num nat

datatype Effect =
    StoreCall Request
  | HistoryPush string
  | ToastSuccess string
  | ToastError string

text \<open>
  An \<open>async\<close> function: from the trace so far to its promise's outcome (\<open>Inl\<close> the
  rejection) and the trace after it.
\<close>

type_synonym 'a async = "Effect list \<Rightarrow> (error + 'a) \<times> Effect list"

definition perform :: "Effect \<Rightarrow> unit async" where
  "perform eff tr = (Inr (), tr @ [eff])"

definition await :: "(Request \<Rightarrow> error option) \<Rightarrow> Request \<Rightarrow> unit async" where
  "await rejects req tr =
     ((case rejects req of None \<Rightarrow> Inr () | Some e \<Rightarrow> Inl e), tr @ [StoreCall req])"

definition andThen :: "'a async \<Rightarrow> ('a \<Rightarrow> 'b async) \<Rightarrow> 'b async" where
  "andThen first rest tr =
     (case first tr of (Inl e, tr') \<Rightarrow> (Inl e, tr') | (Inr x, tr') \<Rightarrow> rest x tr')"

definition tryCatch :: "'a async \<Rightarrow> (error \<Rightarrow> 'a async) \<Rightarrow> 'a async" where
  "tryCatch body handler tr =
     (case body tr of (Inl e, tr') \<Rightarrow> handler e tr' | (Inr x, tr') \<Rightarrow> (Inr x, tr'))"

text \<open>The parts of a trace.\<close>

fun storeCalls :: "Effect list \<Rightarrow> Request list" where
  "storeCalls [] = []"
| "storeCalls (StoreCall req # tr) = req # storeCalls tr"
| "storeCalls (_ # tr) = storeCalls tr"

fun navigations :: "Effect list \<Rightarrow> string list" where
  "navigations [] = []"
| "navigations (HistoryPush path # tr) = path # navigations tr"
| "navigations (_ # tr) = navigations tr"

fun successToasts :: "Effect list \<Rightarrow> string list" where
  "successToasts [] = []"
| "successToasts (ToastSuccess msg # tr) = msg # successToasts tr"
| "successToasts (_ # tr) = successToasts tr"

fun errorToasts :: "Effect list \<Rightarrow> string list" where
  "errorToasts [] = []"
| "errorToasts (ToastError msg # tr) = msg # errorToasts tr"
| "errorToasts (_ # tr) = errorToasts tr"

section \<open>The component's environment\<close>

text \<open>
  What the hooks at the head of the component (lines 36--62) give it: the stores (which
  of their requests reject, and the method \<open>groupMemberships.inDocument\<close>), the acting
  user, the policy of the document, the translation function, the two loading flags of
  \<open>useRequest\<close>, and what it imports: \<open>Pagination.defaultLimit\<close>, the path \<open>homePath()\<close>,
  and the collation behind \<open>localeCompare\<close>.
\<close>

record Policy =
  manageUsers :: bool
  update :: bool

record Env =
  rejects :: "Request \<Rightarrow> error option"
  inDocument :: "string \<Rightarrow> GroupMembership list"
  currentUser :: User
  can :: Policy
  translate :: "string \<Rightarrow> (string \<times> TArg) list \<Rightarrow> string"
  loadingUserMemberships :: bool
  loadingGroupMemberships :: bool
  defaultLimit :: nat
  homePath :: string
  localeCompare :: "string \<Rightarrow> string \<Rightarrow> int"

section \<open>The handlers (lines 69--111 and 182--197)\<close>

definition handleRemoveUser :: "Env \<Rightarrow> Document \<Rightarrow> User \<Rightarrow> unit async" where
  "handleRemoveUser env document item =
     tryCatch
       (andThen
          (await (rejects env) (UserMembershipsDelete (document_id document) (user_id item)))
          (\<lambda>_. if user_id item = user_id (currentUser env)
                then perform (HistoryPush (homePath env))
                else perform (ToastSuccess
                  (translate env ''{{ userName }} was removed from the document''
                     [(''userName'', Str (user_name item))]))))
       (\<lambda>err. perform (ToastError (translate env ''Could not remove user'' [])))"

definition handleUpdateUser ::
  "Env \<Rightarrow> Document \<Rightarrow> User \<Rightarrow> DocumentPermission \<Rightarrow> unit async" where
  "handleUpdateUser env document user perm =
     tryCatch
       (andThen
          (await (rejects env)
             (UserMembershipsCreate (document_id document) (user_id user) perm))
          (\<lambda>_. perform (ToastSuccess
                  (translate env ''Permissions for {{ userName }} updated''
                     [(''userName'', Str (user_name user))]))))
       (\<lambda>err. perform (ToastError (translate env ''Could not update user'' [])))"

text \<open>The \<open>onChange\<close> of a group's permission select: no \<open>try\<close> around the two requests.\<close>

definition groupOnChange ::
  "Env \<Rightarrow> Document \<Rightarrow> GroupMembership \<Rightarrow> SelectValue \<Rightarrow> unit async" where
  "groupOnChange env document membership selected =
     (case selected of
        EmptySelectValue \<Rightarrow>
          await (rejects env)
            (GroupMembershipsDelete (document_id document) (groupId membership))
      | PermissionValue perm \<Rightarrow>
          await (rejects env)
            (GroupMembershipsCreate (document_id document) (groupId membership) perm))"

section \<open>The fetches on mount (lines 44--67)\<close>

definition fetchUserMemberships :: "Env \<Rightarrow> Document \<Rightarrow> unit async" where
  "fetchUserMemberships env document =
     await (rejects env) (FetchDocumentMemberships (document_id document) (defaultLimit env))"

definition fetchGroupMemberships :: "Env \<Rightarrow> Document \<Rightarrow> unit async" where
  "fetchGroupMemberships env document =
     await (rejects env) (GroupMembershipsFetchAll (document_id document))"

text \<open>
  The two callbacks above are what \<open>useRequest\<close> is given; the \<open>request\<close> it returns
  runs them. The effect starts both requests and drops their promises (\<open>void\<close>): the second starts
  whatever becomes of the first.
\<close>

definition mountEffect :: "Env \<Rightarrow> Document \<Rightarrow> Effect list \<Rightarrow> Effect list" where
  "mountEffect env document tr =
     snd (fetchGroupMemberships env document (snd (fetchUserMemberships env document tr)))"

text \<open>
  Modelled from the spec: the answers of the two stores' fetch methods
  (\<open>userMemberships.fetchDocumentMemberships\<close>, \<open>groupMemberships.fetchAll\<close>), which are
  not part of this file. The paginated membership fetch answers with one page, the first
  \<open>limit\<close> user memberships of the document; the group membership fetch answers with all
  group memberships of the document.
\<close>

record UserMembership =
  userMembership_id :: string
  userMembership_userId :: string
  userMembership_documentId :: string
  userMembership_permission :: DocumentPermission

fun loadedUserMemberships :: "UserMembership list \<Rightarrow> Request \<Rightarrow> UserMembership list" where
  "loadedUserMemberships server (FetchDocumentMemberships docId limit) =
     take limit (filter (\<lambda>m. userMembership_documentId m = docId) server)"
| "loadedUserMemberships server _ = []"

fun loadedGroupMemberships :: "GroupMembership list \<Rightarrow> Request \<Rightarrow> GroupMembership list" where
  "loadedGroupMemberships server (GroupMembershipsFetchAll docId) =
     filter (\<lambda>m. documentId m = docId) server"
| "loadedGroupMemberships server _ = []"

section \<open>The rendered view (lines 127--225)\<close>

text \<open>An entry of the select's options: the type \<open>Permission\<close> of \<open>~/types\<close>.\<close>

record Permission =
  label :: string
  val :: SelectValue
  divider :: bool

definition permissions :: "Env \<Rightarrow> Permission list" where
  "permissions env =
     [\<lparr>label = translate env ''View only'' [], val = PermissionValue Read, divider = False\<rparr>,
      \<lparr>label = translate env ''Can edit'' [], val = PermissionValue ReadWrite, divider = False\<rparr>,
      \<lparr>label = translate env ''Manage'' [], val = PermissionValue Admin, divider = False\<rparr>,
      \<lparr>label = translate env ''Remove'' [], val = EmptySelectValue, divider = True\<rparr>]"

text \<open>
  The elements the component returns, with the props that carry data or handlers of this
  file; an optional prop that is \<open>undefined\<close> or \<open>null\<close> is \<open>None\<close>.
\<close>

record InputMemberPermissionSelect =
  select_permissions :: "Permission list"
  onChange :: "SelectValue \<Rightarrow> unit async"
  disabled :: bool
  select_value :: DocumentPermission

record ListItem =
  listItem_key :: string
  title :: string
  subtitle :: string
  actions :: "InputMemberPermissionSelect option"

record MemberListItem =
  memberListItem_key :: string
  memberListItem_user :: User
  onRemove :: "unit async"
  onUpdate :: "(DocumentPermission \<Rightarrow> unit async) option"
  onLeave :: "unit async option"

datatype View = LoadingIndicator | Fragment "ListItem list" "MemberListItem list"

definition groupListItem :: "Env \<Rightarrow> Document \<Rightarrow> GroupMembership \<Rightarrow> ListItem" where
  "groupListItem env document membership =
     \<lparr>listItem_key = membership_id membership,
      title = group_name (group membership),
      subtitle = translate env ''{{ count }} member''
        [(''count'', Num (memberCount (group membership)))],
      actions =
        (if manageUsers (can env)
         then Some \<lparr>select_permissions = permissions env,
                    onChange = groupOnChange env document membership,
                    disabled = (\<not> update (can env)),
                    select_value = permission membership\<rparr>
         else None)\<rparr>"

definition memberListItem :: "Env \<Rightarrow> Document \<Rightarrow> User \<Rightarrow> MemberListItem" where
  "memberListItem env document item =
     \<lparr>memberListItem_key = user_id item,
      memberListItem_user = item,
      onRemove = handleRemoveUser env document item,
      onUpdate =
        (if manageUsers (can env)
         then Some (\<lambda>perm. handleUpdateUser env document item perm)
         else None),
      onLeave =
        (if user_id item = user_id (currentUser env)
         then Some (handleRemoveUser env document item)
         else None)\<rparr>"

definition DocumentMembersList :: "Env \<Rightarrow> Document \<Rightarrow> string list \<Rightarrow> View" where
  "DocumentMembersList env document invitedInSession =
     (if loadingUserMemberships env \<or> loadingGroupMemberships env
      then LoadingIndicator
      else Fragment
        (map (groupListItem env document)
           (sortedGroups (localeCompare env) (inDocument env (document_id document))
              invitedInSession))
        (map (memberListItem env document) (members document invitedInSession)))"

text \<open>
  What the rendered interface can set off: the traces of every handler that an element
  holds, run on every argument the element can pass (a select passes the value of one
  of its options, a member row one of the three permissions), whether the element is
  disabled or not.
\<close>

definition selectTraces :: "InputMemberPermissionSelect \<Rightarrow> Effect list list" where
  "selectTraces sel = map (\<lambda>p. snd (onChange sel (val p) [])) (select_permissions sel)"

definition listItemTraces :: "ListItem \<Rightarrow> Effect list list" where
  "listItemTraces row = (case actions row of None \<Rightarrow> [] | Some sel \<Rightarrow> selectTraces sel)"

definition memberListItemTraces :: "MemberListItem \<Rightarrow> Effect list list" where
  "memberListItemTraces row =
     snd (onRemove row [])
       # (case onUpdate row of
            None \<Rightarrow> []
          | Some handler \<Rightarrow> map (\<lambda>perm. snd (handler perm [])) [Read, ReadWrite, Admin])
       @ (case onLeave row of None \<Rightarrow> [] | Some handler \<Rightarrow> [snd (handler [])])"

fun viewTraces :: "View \<Rightarrow> Effect list list" where
  "viewTraces LoadingIndicator = []"
| "viewTraces (Fragment groupRows memberRows) =
     concat (map listItemTraces groupRows) @ concat (map memberListItemTraces memberRows)"

fun renderedSelects :: "View \<Rightarrow> InputMemberPermissionSelect list" where
  "renderedSelects LoadingIndicator = []"
| "renderedSelects (Fragment groupRows memberRows) =
     concat (map (\<lambda>row. case actions row of None \<Rightarrow> [] | Some sel \<Rightarrow> [sel]) groupRows)"

fun rowsWithUpdate :: "View \<Rightarrow> User list" where
  "rowsWithUpdate LoadingIndicator = []"
| "rowsWithUpdate (Fragment groupRows memberRows) =
     map memberListItem_user (filter (\<lambda>row. onUpdate row \<noteq> None) memberRows)"

text \<open>The requests that change a permission: a create of either store, a group's delete.\<close>

fun changesPermission :: "Request \<Rightarrow> bool" where
  "changesPermission (UserMembershipsCreate _ _ _) = True"
| "changesPermission (GroupMembershipsCreate _ _ _) = True"
| "changesPermission (GroupMembershipsDelete _ _) = True"
| "changesPermission _ = False"

section \<open>The life of the two requests\<close>

text \<open>
  Modelled from the spec: the hook \<open>useRequest\<close>, which is not part of this file. It
  holds the state of one request and hands the component the flag \<open>loading\<close>. The spec
  says of the two fetches that they "are issued concurrently on mount" and that "the
  view blocks (shows a loading indicator) until both resolve": so the flag of a request
  is set from the first render on, before the effect has issued the request, and
  stays set until the request has resolved. The spec gives a request that rejects no
  way out of loading, and neither does the model.
\<close>

datatype RequestState = NotRequested | Loading | Resolved | Rejected error

fun useRequest_loading :: "RequestState \<Rightarrow> bool" where
  "useRequest_loading Resolved = False"
| "useRequest_loading _ = True"

text \<open>
  The state a request is in once the promise of its callback has settled: the callback
  is the one of lines 44--62, and whether it resolves is the store's answer.
\<close>

definition settled :: "unit async \<Rightarrow> RequestState" where
  "settled request = (case fst (request []) of Inr _ \<Rightarrow> Resolved | Inl err \<Rightarrow> Rejected err)"

text \<open>
  Modelled from the spec: what happens to the mounted component, as far as the two
  requests go. At the first render nothing has been requested. \<open>Mount\<close> is the run of the
  effect of lines 64--67, which issues both requests (\<^const>\<open>mountEffect\<close>); the two other
  events are the settling of one request's promise, in either order.
\<close>

record Lifecycle =
  userRequest :: RequestState
  groupRequest :: RequestState
  effects :: "Effect list"

datatype Event = Mount | UserFetchSettles | GroupFetchSettles

fun step :: "Env \<Rightarrow> Document \<Rightarrow> Lifecycle \<Rightarrow> Event \<Rightarrow> Lifecycle" where
  "step env document s Mount =
     s\<lparr>userRequest := Loading, groupRequest := Loading,
       effects := mountEffect env document (effects s)\<rparr>"
| "step env document s UserFetchSettles =
     (if userRequest s = Loading
      then s\<lparr>userRequest := settled (fetchUserMemberships env document)\<rparr> else s)"
| "step env document s GroupFetchSettles =
     (if groupRequest s = Loading
      then s\<lparr>groupRequest := settled (fetchGroupMemberships env document)\<rparr> else s)"

definition firstRender :: Lifecycle where
  "firstRender = \<lparr>userRequest = NotRequested, groupRequest = NotRequested, effects = []\<rparr>"

definition run :: "Env \<Rightarrow> Document \<Rightarrow> Event list \<Rightarrow> Lifecycle" where
  "run env document events = foldl (step env document) firstRender events"

text \<open>What the component returns in a state: lines 151--225 with the two flags of the hook.\<close>

definition render :: "Env \<Rightarrow> Document \<Rightarrow> string list \<Rightarrow> Lifecycle \<Rightarrow> View" where
  "render env document invitedInSession s =
     DocumentMembersList
       (env\<lparr>loadingUserMemberships := useRequest_loading (userRequest s),
            loadingGroupMemberships := useRequest_loading (groupRequest s)\<rparr>)
       document invitedInSession"

text \<open>
  The invariant of the states that \<^const>\<open>run\<close> reaches: a request that has left
  \<^const>\<open>NotRequested\<close> was sent through the store, and one that is \<^const>\<open>Resolved\<close> was not
  rejected by it.
\<close>

definition requestsAccounted :: "Env \<Rightarrow> Document \<Rightarrow> Lifecycle \<Rightarrow> bool" where
  "requestsAccounted env document s =
     ((userRequest s \<noteq> NotRequested \<longrightarrow>
         FetchDocumentMemberships (document_id document) (defaultLimit env)
           \<in> set (storeCalls (effects s)))
      \<and> (userRequest s = Resolved \<longrightarrow>
         rejects env (FetchDocumentMemberships (document_id document) (defaultLimit env)) = None)
      \<and> (groupRequest s \<noteq> NotRequested \<longrightarrow>
         GroupMembershipsFetchAll (document_id document) \<in> set (storeCalls (effects s)))
      \<and> (groupRequest s = Resolved \<longrightarrow>
         rejects env (GroupMembershipsFetchAll (document_id document)) = None))"

section \<open>Example values\<close>

text \<open>Three members, three groups, a document, and an acting user who may only view.\<close>

definition bob :: User where
  "bob = \<lparr>user_id = ''u1'', user_name = ''Bob''\<rparr>"

definition carol :: User where
  "carol = \<lparr>user_id = ''u2'', user_name = ''Carol''\<rparr>"

definition support :: User where
  "support = \<lparr>user_id = ''u3'', user_name = ''3M Support''\<rparr>"

definition designers :: GroupMembership where
  "designers =
     \<lparr>membership_id = ''m1'', groupId = ''g1'', documentId = ''d1'',
      group = \<lparr>group_id = ''g1'', group_name = ''design'', memberCount = 3\<rparr>,
      permission = Read\<rparr>"

definition engineers :: GroupMembership where
  "engineers =
     \<lparr>membership_id = ''m2'', groupId = ''g2'', documentId = ''d1'',
      group = \<lparr>group_id = ''g2'', group_name = ''engineering'', memberCount = 5\<rparr>,
      permission = ReadWrite\<rparr>"

definition marketers :: GroupMembership where
  "marketers =
     \<lparr>membership_id = ''m3'', groupId = ''g3'', documentId = ''d1'',
      group = \<lparr>group_id = ''g3'', group_name = ''marketing'', memberCount = 2\<rparr>,
      permission = Read\<rparr>"

definition handbook :: Document where
  "handbook = \<lparr>document_id = ''d1'', document_members = [carol, bob]\<rparr>"

definition viewer :: Env where
  "viewer =
     \<lparr>rejects = (\<lambda>req. None),
      inDocument = (\<lambda>docId. if docId = ''d1'' then [designers] else []),
      currentUser = bob,
      can = \<lparr>manageUsers = False, update = False\<rparr>,
      translate = (\<lambda>key args. key),
      loadingUserMemberships = False,
      loadingGroupMemberships = False,
      defaultLimit = 25,
      homePath = ''/home'',
      localeCompare = codeUnitCompare\<rparr>"

section \<open>The members list: what holds and what does not\<close>

lemma toLocaleLowerCase_examples:
  "toLocaleLowerCase ''Bob'' = ''bob''"
  "toLocaleLowerCase ''3M Support'' = ''3m support''"
  by code_simp+

lemma members_mset:
  "mset (members document invitedInSession) = mset (document_members document)"
  by (simp add: members_def orderBy_def)

lemma members_sorted_by_key:
  "sorted (map (memberKey invitedInSession) (members document invitedInSession))"
  by (simp add: members_def orderBy_def)

lemma sorted_map_Cons: "sorted (map ((#) c) ws) = sorted (ws :: string list)"
  by (induction ws) auto

text \<open>Within each of the two partitions the lower-cased names ascend.\<close>

lemma members_invited_ascend:
  "sorted (map (\<lambda>u. toLocaleLowerCase (user_name u))
     (filter (\<lambda>u. arr_includes invitedInSession (user_id u))
        (members document invitedInSession)))"
proof -
  let ?P = "\<lambda>u. arr_includes invitedInSession (user_id u)"
  let ?k = "memberKey invitedInSession"
  let ?zs = "sort_key ?k (filter ?P (document_members document))"
  have "sorted (map ?k ?zs)" by (rule sorted_sort_key)
  moreover have "map ?k ?zs = map ((#) CHR ''_'') (map (\<lambda>u. toLocaleLowerCase (user_name u)) ?zs)"
    by (simp add: memberKey_def)
  ultimately have "sorted (map (\<lambda>u. toLocaleLowerCase (user_name u)) ?zs)"
    by (simp only: sorted_map_Cons)
  then show ?thesis by (simp add: members_def orderBy_def filter_sort)
qed

lemma members_others_ascend:
  "sorted (map (\<lambda>u. toLocaleLowerCase (user_name u))
     (filter (\<lambda>u. \<not> arr_includes invitedInSession (user_id u))
        (members document invitedInSession)))"
proof -
  let ?P = "\<lambda>u. \<not> arr_includes invitedInSession (user_id u)"
  let ?k = "memberKey invitedInSession"
  let ?zs = "sort_key ?k (filter ?P (document_members document))"
  have "sorted (map ?k ?zs)" by (rule sorted_sort_key)
  moreover have "map ?k ?zs = map (\<lambda>u. toLocaleLowerCase (user_name u)) ?zs"
    by (simp add: memberKey_def)
  ultimately have "sorted (map (\<lambda>u. toLocaleLowerCase (user_name u)) ?zs)"
    by simp
  then show ?thesis by (simp add: members_def orderBy_def filter_sort)
qed

text \<open>
  Invited users do come first when the lower-cased name of every other user starts with
  a code unit above \<open>_\<close>, as a lower-case letter is.
\<close>

lemma invitedFirst_if_sorted:
  assumes "sorted (map (memberKey invitedInSession) us)"
    and "\<forall>u \<in> set us. \<not> arr_includes invitedInSession (user_id u) \<longrightarrow>
           (\<exists>c cs. toLocaleLowerCase (user_name u) = c # cs \<and> CHR ''_'' < c)"
  shows "invitedFirst invitedInSession us"
  using assms
proof (induction us)
  case Nil
  then show ?case by simp
next
  case (Cons u us)
  have rest: "invitedFirst invitedInSession us"
    using Cons by simp
  show ?case
  proof (cases "arr_includes invitedInSession (user_id u)")
    case True
    with rest show ?thesis by simp
  next
    case False
    then obtain c cs where name: "toLocaleLowerCase (user_name u) = c # cs" and c: "CHR ''_'' < c"
      using Cons.prems(2) by auto
    have "\<not> arr_includes invitedInSession (user_id v)" if v: "v \<in> set us" for v
    proof
      assume inv: "arr_includes invitedInSession (user_id v)"
      have "memberKey invitedInSession u \<le> memberKey invitedInSession v"
        using Cons.prems(1) v by auto
      then have "c # cs \<le> CHR ''_'' # toLocaleLowerCase (user_name v)"
        using False inv name by (simp add: memberKey_def)
      with c show False by auto
    qed
    with rest show ?thesis by (simp add: list_all_iff)
  qed
qed

lemma members_invitedFirst_if_letters:
  assumes "\<forall>u \<in> set (document_members document).
      \<not> arr_includes invitedInSession (user_id u) \<longrightarrow>
        (\<exists>c cs. toLocaleLowerCase (user_name u) = c # cs \<and> CHR ''_'' < c)"
  shows "invitedFirst invitedInSession (members document invitedInSession)"
proof (rule invitedFirst_if_sorted)
  show "sorted (map (memberKey invitedInSession) (members document invitedInSession))"
    by (simp add: members_def orderBy_def)
  show "\<forall>u \<in> set (members document invitedInSession).
      \<not> arr_includes invitedInSession (user_id u) \<longrightarrow>
        (\<exists>c cs. toLocaleLowerCase (user_name u) = c # cs \<and> CHR ''_'' < c)"
    using assms by (simp add: members_def orderBy_def)
qed

text \<open>
  Claim C1: the displayed members are a permutation of \<open>document.members\<close> in which every
  user invited in the session precedes every other user, each partition ascending by
  lower-cased name. The permutation and the order inside each partition hold (the
  lemmas above). The order between the partitions does not: the key of an invited user
  starts with \<open>_\<close> (code unit 95), and a lower-cased name that starts with a smaller
  code unit (a digit, a space, most punctuation) sorts before it. With Bob invited in
  the session and the member "3M Support" not, the list shows "3M Support" first.
\<close>

theorem members_digit_name_before_invited:
  "members \<lparr>document_id = ''d1'', document_members = [bob, support]\<rparr> [''u1'']
     = [support, bob]
   \<and> arr_includes [''u1''] (user_id bob)
   \<and> \<not> arr_includes [''u1''] (user_id support)
   \<and> \<not> invitedFirst [''u1'']
        (members \<lparr>document_id = ''d1'', document_members = [bob, support]\<rparr> [''u1''])"
  by (simp add: members_def orderBy_def memberKey_def arr_includes_def
      toLocaleLowerCase_def toLowerUnit_def bob_def support_def)

section \<open>The groups list\<close>

text \<open>
  Claim C2: the displayed groups are sorted so that every group invited in the session
  precedes every other group, each partition ordered by name. The comparator gives the
  prefix \<open>_\<close> to the name of its first argument only, so for any collation that puts
  \<open>_\<close> before the letters it answers "first argument first" to both orders of a pair
  whenever the first argument was invited: it is not a consistent comparator, and the
  array it leaves is not the one claimed. With the group "engineering" invited and the
  group "design" not, stored in this order, "design" is shown first; with both invited
  and stored by name, they are shown in reverse.
\<close>

theorem sortedGroups_comparator_one_sided:
  assumes "collate ''design'' ''engineering'' < 0"
    and "collate ''_engineering'' ''design'' < 0"
    and "collate ''_design'' ''engineering'' < 0"
  shows "groupCompare collate [''g2''] engineers designers < 0
    \<and> groupCompare collate [''g2''] designers engineers < 0
    \<and> sortedGroups collate [engineers, designers] [''g2''] = [designers, engineers]
    \<and> groupCompare collate [''g1'', ''g2''] engineers designers < 0
    \<and> groupCompare collate [''g1'', ''g2''] designers engineers < 0
    \<and> sortedGroups collate [designers, engineers] [''g1'', ''g2''] = [engineers, designers]"
  using assms
  by (simp add: sortedGroups_def array_sort_def groupCompare_def arr_includes_def
      designers_def engineers_def)

theorem sortedGroups_comparator_one_sided_witness:
  "codeUnitCompare ''design'' ''engineering'' < 0
    \<and> codeUnitCompare ''_engineering'' ''design'' < 0
    \<and> codeUnitCompare ''_design'' ''engineering'' < 0
    \<and> sortedGroups codeUnitCompare [engineers, designers] [''g2''] = [designers, engineers]
    \<and> sortedGroups codeUnitCompare [designers, engineers] [''g1'', ''g2'']
       = [engineers, designers]"
proof -
  have h1: "codeUnitCompare ''design'' ''engineering'' < 0"
    and h2: "codeUnitCompare ''_engineering'' ''design'' < 0"
    and h3: "codeUnitCompare ''_design'' ''engineering'' < 0"
    by (simp_all add: codeUnitCompare_def)
  from sortedGroups_comparator_one_sided [OF h1 h2 h3] h1 h2 h3
  show ?thesis by simp
qed

text \<open>
  On three groups the comparator sends the binary insertion astray as well: with only
  "marketing" invited, the groups stored as design, marketing, engineering are shown as
  engineering, marketing, design.
\<close>

lemma sortedGroups_three_groups:
  "sortedGroups codeUnitCompare [designers, marketers, engineers] [''g3'']
     = [engineers, marketers, designers]"
  by code_simp

section \<open>The handlers\<close>

lemma storeCalls_append: "storeCalls (tr @ tr') = storeCalls tr @ storeCalls tr'"
  by (induction tr rule: storeCalls.induct) simp_all

lemma handleRemoveUser_storeCalls:
  "storeCalls (snd (handleRemoveUser env document item tr)) =
     storeCalls tr @ [UserMembershipsDelete (document_id document) (user_id item)]"
  by (simp add: handleRemoveUser_def tryCatch_def andThen_def await_def perform_def
      storeCalls_append split: option.split)

text \<open>
  Claim C3: in each of the three mutation handlers a failure of the store's request is
  caught inside the handler and a generic error notification is shown. The two user
  handlers do so (claims C4 and C6). The handler of the group's select has no \<open>try\<close>:
  whichever value was selected, when the store rejects with \<open>err\<close> the handler's own
  promise rejects with \<open>err\<close>, and the trace ends with the request, without any
  notification.
\<close>

theorem groupOnChange_rejection_escapes:
  "groupOnChange (env\<lparr>rejects := \<lambda>req. Some err\<rparr>) document membership selected tr =
     (Inl err,
      tr @ [StoreCall
        (case selected of
           EmptySelectValue \<Rightarrow> GroupMembershipsDelete (document_id document) (groupId membership)
         | PermissionValue perm \<Rightarrow>
             GroupMembershipsCreate (document_id document) (groupId membership) perm)])"
  by (simp add: groupOnChange_def await_def split: SelectValue.split)

text \<open>
  Claim C4: the remove-user handler sends the delete of the user membership of
  \<open>(document.id, item.id)\<close> first. When the delete resolves it navigates to the home
  path if the removed user's id is the acting user's id, and shows the success
  notification otherwise; when the delete rejects it shows the generic error
  notification and neither navigates nor shows the success notification. Its own
  promise always resolves.
\<close>

theorem handleRemoveUser_spec:
  "handleRemoveUser env document item tr =
     (Inr (),
      tr @ StoreCall (UserMembershipsDelete (document_id document) (user_id item))
        # (case rejects env (UserMembershipsDelete (document_id document) (user_id item)) of
             Some err \<Rightarrow> [ToastError (translate env ''Could not remove user'' [])]
           | None \<Rightarrow>
               if user_id item = user_id (currentUser env)
               then [HistoryPush (homePath env)]
               else [ToastSuccess
                 (translate env ''{{ userName }} was removed from the document''
                    [(''userName'', Str (user_name item))])]))"
  by (simp add: handleRemoveUser_def tryCatch_def andThen_def await_def perform_def
      split: option.split)

text \<open>
  Claim C5: on a selection in a group's select exactly one request is sent: the delete
  of the group membership of \<open>(document.id, groupId)\<close> when the selected value is the
  empty value, the create with the selected permission for any other value.
\<close>

theorem groupOnChange_dispatch:
  "snd (groupOnChange env document membership EmptySelectValue tr) =
     tr @ [StoreCall (GroupMembershipsDelete (document_id document) (groupId membership))]
   \<and> snd (groupOnChange env document membership (PermissionValue perm) tr) =
     tr @ [StoreCall (GroupMembershipsCreate (document_id document) (groupId membership) perm)]"
  by (simp add: groupOnChange_def await_def)

text \<open>
  Claim C6: the update-user handler sends the create of the user membership with
  \<open>(document.id, user.id, permission)\<close>; when it resolves the success notification is
  shown, when it rejects the generic error notification is shown and no success
  notification. Its own promise always resolves.
\<close>

theorem handleUpdateUser_spec:
  "handleUpdateUser env document user perm tr =
     (Inr (),
      tr @ StoreCall (UserMembershipsCreate (document_id document) (user_id user) perm)
        # (case rejects env
               (UserMembershipsCreate (document_id document) (user_id user) perm) of
             Some err \<Rightarrow> [ToastError (translate env ''Could not update user'' [])]
           | None \<Rightarrow>
               [ToastSuccess
                 (translate env ''Permissions for {{ userName }} updated''
                    [(''userName'', Str (user_name user))])]))"
  by (simp add: handleUpdateUser_def tryCatch_def andThen_def await_def perform_def
      split: option.split)

section \<open>The view\<close>

text \<open>The guard of lines 151--153, on the two flags.\<close>

lemma loading_guard:
  "(DocumentMembersList env document invitedInSession = LoadingIndicator)
     = (loadingUserMemberships env \<or> loadingGroupMemberships env)"
  by (simp add: DocumentMembersList_def)

lemma useRequest_loading_iff: "useRequest_loading st = (st \<noteq> Resolved)"
  by (cases st) simp_all

lemma render_LoadingIndicator_iff:
  "(render env document invitedInSession s = LoadingIndicator)
     = (userRequest s \<noteq> Resolved \<or> groupRequest s \<noteq> Resolved)"
  by (simp add: render_def loading_guard useRequest_loading_iff)

lemma mountEffect_run:
  "mountEffect env document tr =
     tr @ [StoreCall (FetchDocumentMemberships (document_id document) (defaultLimit env)),
           StoreCall (GroupMembershipsFetchAll (document_id document))]"
  by (simp add: mountEffect_def fetchUserMemberships_def fetchGroupMemberships_def await_def)

lemma settled_fetchUserMemberships:
  "(settled (fetchUserMemberships env document) = Resolved)
     = (rejects env (FetchDocumentMemberships (document_id document) (defaultLimit env)) = None)"
  by (simp add: settled_def fetchUserMemberships_def await_def split: option.split)

lemma settled_fetchGroupMemberships:
  "(settled (fetchGroupMemberships env document) = Resolved)
     = (rejects env (GroupMembershipsFetchAll (document_id document)) = None)"
  by (simp add: settled_def fetchGroupMemberships_def await_def split: option.split)

lemma step_requestsAccounted:
  assumes "requestsAccounted env document s"
  shows "requestsAccounted env document (step env document s ev)"
proof (cases ev)
  case Mount
  then show ?thesis
    by (simp add: requestsAccounted_def mountEffect_run storeCalls_append)
next
  case UserFetchSettles
  with assms show ?thesis
    by (simp add: requestsAccounted_def settled_fetchUserMemberships)
next
  case GroupFetchSettles
  with assms show ?thesis
    by (simp add: requestsAccounted_def settled_fetchGroupMemberships)
qed

lemma run_requestsAccounted: "requestsAccounted env document (run env document events)"
proof (induction events rule: rev_induct)
  case Nil
  show ?case by (simp add: run_def firstRender_def requestsAccounted_def)
next
  case (snoc ev events)
  then show ?case
    using step_requestsAccounted [of env document "run env document events" ev]
    by (simp add: run_def)
qed

text \<open>
  Claim C7: while either of the two fetches has not resolved, the component returns the
  loading indicator and not the lists; the lists are returned only after both fetches
  have resolved, that is in states where both requests were sent through the store by
  the effect on mount and the store rejected neither. This holds in every state the
  component reaches, from the first render on and whatever the order of the events.
\<close>

theorem lists_only_after_both_fetches_resolved:
  "(userRequest (run env document events) \<noteq> Resolved
      \<or> groupRequest (run env document events) \<noteq> Resolved
     \<longrightarrow> render env document invitedInSession (run env document events) = LoadingIndicator)
   \<and> (render env document invitedInSession (run env document events) \<noteq> LoadingIndicator
     \<longrightarrow> userRequest (run env document events) = Resolved
       \<and> groupRequest (run env document events) = Resolved
       \<and> FetchDocumentMemberships (document_id document) (defaultLimit env)
           \<in> set (storeCalls (effects (run env document events)))
       \<and> GroupMembershipsFetchAll (document_id document)
           \<in> set (storeCalls (effects (run env document events)))
       \<and> rejects env (FetchDocumentMemberships (document_id document) (defaultLimit env)) = None
       \<and> rejects env (GroupMembershipsFetchAll (document_id document)) = None)"
proof -
  let ?s = "run env document events"
  have guard: "(render env document invitedInSession ?s = LoadingIndicator)
      = (userRequest ?s \<noteq> Resolved \<or> groupRequest ?s \<noteq> Resolved)"
    by (rule render_LoadingIndicator_iff)
  have inv: "requestsAccounted env document ?s"
    by (rule run_requestsAccounted)
  show ?thesis
  proof (intro conjI impI)
    assume "userRequest ?s \<noteq> Resolved \<or> groupRequest ?s \<noteq> Resolved"
    with guard show "render env document invitedInSession ?s = LoadingIndicator" by simp
  next
    assume shown: "render env document invitedInSession ?s \<noteq> LoadingIndicator"
    with guard have both: "userRequest ?s = Resolved" "groupRequest ?s = Resolved"
      by simp_all
    from both show "userRequest ?s = Resolved" by simp
    from both show "groupRequest ?s = Resolved" by simp
    from inv both show "FetchDocumentMemberships (document_id document) (defaultLimit env)
        \<in> set (storeCalls (effects ?s))"
      by (simp add: requestsAccounted_def)
    from inv both show "GroupMembershipsFetchAll (document_id document)
        \<in> set (storeCalls (effects ?s))"
      by (simp add: requestsAccounted_def)
    from inv both show "rejects env
        (FetchDocumentMemberships (document_id document) (defaultLimit env)) = None"
      by (simp add: requestsAccounted_def)
    from inv both show "rejects env (GroupMembershipsFetchAll (document_id document)) = None"
      by (simp add: requestsAccounted_def)
  qed
qed



lemma run_viewer_steps:
  "run viewer handbook [] = firstRender"
  "run viewer handbook [Mount, UserFetchSettles] =
     \<lparr>userRequest = Resolved, groupRequest = Loading,
      effects = [StoreCall (FetchDocumentMemberships ''d1'' 25),
                 StoreCall (GroupMembershipsFetchAll ''d1'')]\<rparr>"
  "run viewer handbook [Mount, UserFetchSettles, GroupFetchSettles] =
     \<lparr>userRequest = Resolved, groupRequest = Resolved,
      effects = [StoreCall (FetchDocumentMemberships ''d1'' 25),
                 StoreCall (GroupMembershipsFetchAll ''d1'')]\<rparr>"
  by (simp_all add: run_def firstRender_def mountEffect_run settled_def
      fetchUserMemberships_def fetchGroupMemberships_def await_def viewer_def handbook_def)


theorem lists_only_after_both_fetches_resolved_witness:
  "render viewer handbook [] (run viewer handbook []) = LoadingIndicator
   \<and> groupRequest (run viewer handbook [Mount, UserFetchSettles]) \<noteq> Resolved
   \<and> render viewer handbook [] (run viewer handbook [Mount, UserFetchSettles])
       = LoadingIndicator
   \<and> render viewer handbook [] (run viewer handbook [Mount, UserFetchSettles, GroupFetchSettles])
       \<noteq> LoadingIndicator
   \<and> userRequest (run viewer handbook [Mount, UserFetchSettles, GroupFetchSettles]) = Resolved
   \<and> groupRequest (run viewer handbook [Mount, UserFetchSettles, GroupFetchSettles]) = Resolved
   \<and> storeCalls (effects (run viewer handbook [Mount, UserFetchSettles, GroupFetchSettles]))
       = [FetchDocumentMemberships ''d1'' 25, GroupMembershipsFetchAll ''d1'']"
proof -
  have first: "userRequest (run viewer handbook []) \<noteq> Resolved"
    by (simp add: run_viewer_steps firstRender_def)
  have half: "groupRequest (run viewer handbook [Mount, UserFetchSettles]) \<noteq> Resolved"
    by (simp add: run_viewer_steps)
  have shown: "render viewer handbook []
      (run viewer handbook [Mount, UserFetchSettles, GroupFetchSettles]) \<noteq> LoadingIndicator"
    by (simp add: run_viewer_steps render_def DocumentMembersList_def)
  have calls: "storeCalls (effects
      (run viewer handbook [Mount, UserFetchSettles, GroupFetchSettles]))
       = [FetchDocumentMemberships ''d1'' 25, GroupMembershipsFetchAll ''d1'']"
    by (simp add: run_viewer_steps)
  have blocked_first: "render viewer handbook [] (run viewer handbook []) = LoadingIndicator"
    using lists_only_after_both_fetches_resolved [of viewer handbook "[]" "[]"] first
    by blast
  have blocked_half:
    "render viewer handbook [] (run viewer handbook [Mount, UserFetchSettles])
       = LoadingIndicator"
    using lists_only_after_both_fetches_resolved
      [of viewer handbook "[Mount, UserFetchSettles]" "[]"] half
    by blast
  have resolved:
    "userRequest (run viewer handbook [Mount, UserFetchSettles, GroupFetchSettles]) = Resolved
     \<and> groupRequest (run viewer handbook [Mount, UserFetchSettles, GroupFetchSettles])
         = Resolved"
    using lists_only_after_both_fetches_resolved
      [of viewer handbook "[Mount, UserFetchSettles, GroupFetchSettles]" "[]"] shown
    by blast
  from blocked_first half blocked_half shown resolved calls
  show ?thesis by (intro conjI) blast+
qed

text \<open>
  Claim C8: the options of a membership's select are, in this order, Read labelled
  "View only", ReadWrite labelled "Can edit", Admin labelled "Manage" and the empty
  value labelled "Remove" (each label passed through the translation), and no other.
\<close>

theorem permissions_options:
  "map (\<lambda>p. (label p, val p)) (permissions env) =
     [(translate env ''View only'' [], PermissionValue Read),
      (translate env ''Can edit'' [], PermissionValue ReadWrite),
      (translate env ''Manage'' [], PermissionValue Admin),
      (translate env ''Remove'' [], EmptySelectValue)]"
  by (simp add: permissions_def)

lemma memberListItemTraces_without_manageUsers:
  assumes "\<not> manageUsers (can env)"
  shows "list_all (\<lambda>tr. list_all (\<lambda>req. \<not> changesPermission req) (storeCalls tr))
           (memberListItemTraces (memberListItem env document item))"
  using assms
  by (simp add: memberListItemTraces_def memberListItem_def handleRemoveUser_storeCalls)

lemma listItemTraces_without_manageUsers:
  assumes "\<not> manageUsers (can env)"
  shows "listItemTraces (groupListItem env document membership) = []"
  using assms by (simp add: listItemTraces_def groupListItem_def)

text \<open>
  Claim C9: when the policy does not grant \<open>manageUsers\<close>, no group row holds a
  permission select, no member row holds an update handler, and no handler that the
  rendered view holds sends a request that changes a permission.
\<close>

theorem no_permission_change_without_manageUsers:
  assumes "\<not> manageUsers (can env)"
  shows "renderedSelects (DocumentMembersList env document invitedInSession) = []
    \<and> rowsWithUpdate (DocumentMembersList env document invitedInSession) = []
    \<and> list_all (\<lambda>tr. list_all (\<lambda>req. \<not> changesPermission req) (storeCalls tr))
         (viewTraces (DocumentMembersList env document invitedInSession))"
proof (cases "loadingUserMemberships env \<or> loadingGroupMemberships env")
  case True
  then show ?thesis by (simp add: DocumentMembersList_def)
next
  case False
  let ?gs = "sortedGroups (localeCompare env) (inDocument env (document_id document))
    invitedInSession"
  let ?ms = "members document invitedInSession"
  have view: "DocumentMembersList env document invitedInSession =
      Fragment (map (groupListItem env document) ?gs) (map (memberListItem env document) ?ms)"
    using False by (simp add: DocumentMembersList_def)
  have selects: "renderedSelects (Fragment (map (groupListItem env document) ?gs)
      (map (memberListItem env document) ?ms)) = []"
    using assms by (simp add: groupListItem_def comp_def)
  have updates: "rowsWithUpdate (Fragment (map (groupListItem env document) ?gs)
      (map (memberListItem env document) ?ms)) = []"
    using assms by (simp add: memberListItem_def filter_map comp_def)
  have groups: "concat (map listItemTraces (map (groupListItem env document) ?gs)) = []"
    using assms by (simp add: listItemTraces_without_manageUsers comp_def)
  have rows: "list_all (\<lambda>tr. list_all (\<lambda>req. \<not> changesPermission req) (storeCalls tr))
      (concat (map memberListItemTraces (map (memberListItem env document) ?ms)))"
    using memberListItemTraces_without_manageUsers [OF assms]
    by (simp add: list_all_iff)
  have traces: "list_all (\<lambda>tr. list_all (\<lambda>req. \<not> changesPermission req) (storeCalls tr))
      (viewTraces (Fragment (map (groupListItem env document) ?gs)
         (map (memberListItem env document) ?ms)))"
    unfolding viewTraces.simps groups using rows by simp
  show ?thesis
    unfolding view using selects updates traces by (intro conjI)
qed

theorem no_permission_change_without_manageUsers_witness:
  "\<not> manageUsers (can viewer)
   \<and> renderedSelects (DocumentMembersList viewer handbook []) = []
   \<and> rowsWithUpdate (DocumentMembersList viewer handbook []) = []
   \<and> list_all (\<lambda>tr. list_all (\<lambda>req. \<not> changesPermission req) (storeCalls tr))
        (viewTraces (DocumentMembersList viewer handbook []))
   \<and> map storeCalls (viewTraces (DocumentMembersList viewer handbook [])) =
        [[UserMembershipsDelete ''d1'' ''u1''], [UserMembershipsDelete ''d1'' ''u1''],
         [UserMembershipsDelete ''d1'' ''u2'']]"
proof -
  have h: "\<not> manageUsers (can viewer)" by (simp add: viewer_def)
  have traces: "map storeCalls (viewTraces (DocumentMembersList viewer handbook [])) =
        [[UserMembershipsDelete ''d1'' ''u1''], [UserMembershipsDelete ''d1'' ''u1''],
         [UserMembershipsDelete ''d1'' ''u2'']]"
    by (simp add: DocumentMembersList_def viewer_def handbook_def bob_def carol_def
        designers_def sortedGroups_def array_sort_def members_def orderBy_def
        memberKey_def arr_includes_def toLocaleLowerCase_def toLowerUnit_def
        groupListItem_def memberListItem_def listItemTraces_def memberListItemTraces_def
        handleRemoveUser_storeCalls char_of_def)
  from no_permission_change_without_manageUsers [OF h, of handbook "[]"] h traces
  show ?thesis by simp
qed

section \<open>The fetches on mount\<close>

text \<open>
  Claim C10: on mount the component sends exactly two requests: one paginated fetch of
  the document's user memberships with \<open>limit = Pagination.defaultLimit\<close>, and one
  \<open>fetchAll\<close> of its group memberships, which carries no limit. So the user memberships
  loaded on mount are at most \<open>defaultLimit\<close>, however many the server holds, while all
  group memberships of the document are loaded.
\<close>

theorem mount_fetches:
  "storeCalls (mountEffect env document []) =
     [FetchDocumentMemberships (document_id document) (defaultLimit env),
      GroupMembershipsFetchAll (document_id document)]
   \<and> length (concat (map (loadedUserMemberships userServer)
        (storeCalls (mountEffect env document [])))) \<le> defaultLimit env
   \<and> concat (map (loadedGroupMemberships groupServer)
        (storeCalls (mountEffect env document []))) =
      filter (\<lambda>m. documentId m = document_id document) groupServer"
  by (simp add: mountEffect_def fetchUserMemberships_def fetchGroupMemberships_def await_def)

end
